theory Spec2Isabelle
  imports Main
begin

section \<open>Shallow embedding of \<open>ova_to_ami.py\<close>\<close>

text \<open>
  The script is a straight line of calls into three cloud clients. Everything it does is
  visible from outside as a sequence of events (lines printed, client calls made, sleeps)
  followed by the way the process ends. The embedding makes both explicit: every helper
  returns the events it produced together with its outcome, and the backend is a record
  of response functions, so that the script is a deterministic function of the backend.

  Strings are lists of code points below 256. \<open>time.time()\<close> is taken after truncation
  by \<open>int\<close>; floating point is not modelled.
\<close>

subsection \<open>Exceptions, outcomes and events\<close>

text \<open>
  The subclasses of \<open>Exception\<close> that the script can meet. The two named client
  exceptions are the ones that have an \<open>except\<close> clause of their own; every other
  client or transport error (access denied, throttling, network failure, a failed
  waiter) is \<open>OtherException\<close> with its message. \<open>KeyError\<close> and \<open>IndexError\<close> come from
  subscripting a response.
\<close>

datatype exc =
    BucketAlreadyOwnedByYou string
  | NoSuchEntityException string
  | OtherException string
  | KeyError string
  | IndexError

text \<open>\<open>str(e)\<close>, as the f-strings of the diagnostics format it.\<close>

fun str_exc :: "exc \<Rightarrow> string" where
  "str_exc (BucketAlreadyOwnedByYou m) = m"
| "str_exc (NoSuchEntityException m) = m"
| "str_exc (OtherException m) = m"
| "str_exc (KeyError k) = [CHR 0x27] @ k @ [CHR 0x27]"
| "str_exc IndexError = ''list index out of range''"

text \<open>What a client call does: it raises or it returns a response.\<close>

datatype 'a result = Raises exc | Returns 'a

text \<open>
  How a function of the script ends: it returns a value, it calls \<open>sys.exit(n)\<close>, or an
  exception leaves it without having been caught.
\<close>

datatype 'a outcome = Return 'a | Exit nat | Uncaught exc

datatype stream = Stdout | Stderr

record user_bucket =
  S3Bucket :: string
  S3Key :: string

record disk_container =
  Description :: string
  Format :: string
  UserBucket :: user_bucket

datatype api_call =
    Client string
  | CreateBucket string "string option"
  | GetRole string
  | CreateRole string string
  | PutRolePolicy string string string
  | WaitRoleExists string
  | UploadFile string string string
  | ImportImage string "disk_container list"
  | DescribeImportImageTasks "string list"

datatype event = Print stream string | Call api_call | Sleep nat

fun is_call :: "event \<Rightarrow> bool" where
  "is_call (Call c) = True"
| "is_call (Print s t) = False"
| "is_call (Sleep n) = False"

fun is_sleep :: "event \<Rightarrow> bool" where
  "is_sleep (Sleep n) = True"
| "is_sleep (Print s t) = False"
| "is_sleep (Call c) = False"

text \<open>
  The exit status of the interpreter: 0 when \<open>main\<close> returns, the argument of
  \<open>sys.exit\<close>, and 1 after the traceback of an uncaught exception.
\<close>

fun process_exit_code :: "unit outcome \<Rightarrow> nat" where
  "process_exit_code (Return u) = 0"
| "process_exit_code (Exit n) = n"
| "process_exit_code (Uncaught e) = 1"

subsection \<open>Formatting: \<open>str(int)\<close>, \<open>os.path.basename\<close>, \<open>json.dumps\<close>\<close>

definition digit_char :: "nat \<Rightarrow> char" where
  "digit_char d = ''0123456789'' ! d"

function str_nat :: "nat \<Rightarrow> string" where
  "str_nat n = (if n < 10 then [digit_char n] else str_nat (n div 10) @ [digit_char (n mod 10)])"
  by pat_completeness auto
termination
  by (relation "measure (\<lambda>n. n)") auto

declare str_nat.simps [simp del]

definition str_int :: "int \<Rightarrow> string" where
  "str_int i = (if i < 0 then CHR ''-'' # str_nat (nat (- i)) else str_nat (nat i))"

text \<open>\<open>posixpath.basename\<close>: what follows the last slash.\<close>

definition basename :: "string \<Rightarrow> string" where
  "basename p = rev (takeWhile (\<lambda>c. c \<noteq> CHR ''/'') (rev p))"

datatype json = JString string | JArray "json list" | JObject "(string \<times> json) list"

definition hex_char :: "nat \<Rightarrow> char" where
  "hex_char d = ''0123456789abcdef'' ! d"

text \<open>
  The encoder of \<open>json.dumps\<close> with its default \<open>ensure_ascii=True\<close>: backslash and
  double quote are escaped, the five short escapes are used, and every other code point
  outside the printable ASCII range becomes \<open>\uXXXX\<close>.
\<close>

definition escape_char :: "char \<Rightarrow> string" where
  "escape_char c =
     (let n = (of_char c :: nat) in
      if c = CHR 0x5C then [CHR 0x5C, CHR 0x5C]
      else if c = CHR 0x22 then [CHR 0x5C, CHR 0x22]
      else if n = 8 then [CHR 0x5C, CHR ''b'']
      else if n = 12 then [CHR 0x5C, CHR ''f'']
      else if n = 10 then [CHR 0x5C, CHR ''n'']
      else if n = 13 then [CHR 0x5C, CHR ''r'']
      else if n = 9 then [CHR 0x5C, CHR ''t'']
      else if n < 32 \<or> 126 < n
        then [CHR 0x5C, CHR ''u'', CHR ''0'', CHR ''0'', hex_char (n div 16), hex_char (n mod 16)]
      else [c])"

definition encode_string :: "string \<Rightarrow> string" where
  "encode_string s = [CHR 0x22] @ concat (map escape_char s) @ [CHR 0x22]"

fun json_dumps :: "json \<Rightarrow> string"
  and dumps_elems :: "json list \<Rightarrow> string"
  and dumps_members :: "(string \<times> json) list \<Rightarrow> string" where
  "json_dumps (JString s) = encode_string s"
| "json_dumps (JArray xs) = ''['' @ dumps_elems xs @ '']''"
| "json_dumps (JObject kvs) = ''{'' @ dumps_members kvs @ ''}''"
| "dumps_elems [] = []"
| "dumps_elems [x] = json_dumps x"
| "dumps_elems (x # y # ys) = json_dumps x @ '', '' @ dumps_elems (y # ys)"
| "dumps_members [] = []"
| "dumps_members [(k, v)] = encode_string k @ '': '' @ json_dumps v"
| "dumps_members ((k, v) # m # ms) =
     encode_string k @ '': '' @ json_dumps v @ '', '' @ dumps_members (m # ms)"

subsection \<open>The backend\<close>

text \<open>
  An import task as the status query reports it: a dictionary from field names to
  values. The script reads \<open>Status\<close>, \<open>StatusMessage\<close> and \<open>ImageId\<close>; a field the
  backend left out is an absent key.
\<close>

type_synonym task = "string \<rightharpoonup> string"

text \<open>
  Everything outside the script. Each client method is a function from its arguments to
  what the call does; the status query takes in addition the number of queries that came
  before it, so that the backend can answer differently over time.
\<close>

record env =
  os_path_exists :: "string \<Rightarrow> bool"
  boto3_client :: "string \<Rightarrow> unit result"
  time_time :: int
  uuid_uuid4 :: string
  region_name :: string
  create_bucket :: "string \<Rightarrow> string option \<Rightarrow> unit result"
  get_role :: "string \<Rightarrow> json result"
  create_role :: "string \<Rightarrow> string \<Rightarrow> unit result"
  put_role_policy :: "string \<Rightarrow> string \<Rightarrow> string \<Rightarrow> unit result"
  wait_role_exists :: "string \<Rightarrow> unit result"
  upload_file :: "string \<Rightarrow> string \<Rightarrow> string \<Rightarrow> unit result"
  ec2_import_image :: "string \<Rightarrow> disk_container list \<Rightarrow> (string \<rightharpoonup> string) result"
  describe_import_image_tasks :: "nat \<Rightarrow> string list \<Rightarrow> (string \<rightharpoonup> task list) result"

subsection \<open>Configuration\<close>

definition IAM_ROLE_NAME :: string where
  "IAM_ROLE_NAME = ''vmimport''"

definition IAM_POLICY_NAME :: string where
  "IAM_POLICY_NAME = ''vmimport''"

subsection \<open>\<open>create_s3_bucket\<close>\<close>

definition create_s3_bucket :: "env \<Rightarrow> string \<Rightarrow> event list \<times> unit outcome" where
  "create_s3_bucket s3 bucket_name =
     (let current_region = region_name s3;
          config = (if current_region = ''us-east-1'' then None else Some current_region);
          tr = [Print Stdout (''Attempting to create S3 bucket: '' @ bucket_name),
                Call (CreateBucket bucket_name config)]
      in case create_bucket s3 bucket_name config of
           Returns u \<Rightarrow>
             (tr @ [Print Stdout (''Successfully created S3 bucket: '' @ bucket_name)], Return ())
         | Raises (BucketAlreadyOwnedByYou m) \<Rightarrow>
             (tr @ [Print Stdout (''Bucket '' @ [CHR 0x27] @ bucket_name @ [CHR 0x27]
                      @ '' already exists and is owned by you. Proceeding...'')], Return ())
         | Raises e \<Rightarrow>
             (tr @ [Print Stderr (''Error creating S3 bucket: '' @ str_exc e)], Exit 1))"

subsection \<open>\<open>create_iam_role_and_policy\<close>\<close>

definition trust_policy :: json where
  "trust_policy =
     JObject [
       (''Version'', JString ''2012-10-17''),
       (''Statement'', JArray [
          JObject [
            (''Effect'', JString ''Allow''),
            (''Principal'', JObject [(''Service'', JString ''vmie.amazonaws.com'')]),
            (''Action'', JString ''sts:AssumeRole''),
            (''Condition'', JObject [
               (''StringEquals'', JObject [(''sts:ExternalId'', JString ''vmimport'')])])]])]"

definition role_policy :: "string \<Rightarrow> json" where
  "role_policy s3_bucket =
     JObject [
       (''Version'', JString ''2012-10-17''),
       (''Statement'', JArray [
          JObject [
            (''Effect'', JString ''Allow''),
            (''Action'', JArray [
               JString ''s3:GetBucketLocation'',
               JString ''s3:GetObject'',
               JString ''s3:ListBucket'']),
            (''Resource'', JArray [
               JString (''arn:aws:s3:::'' @ s3_bucket),
               JString (''arn:aws:s3:::'' @ s3_bucket @ ''/*'')])],
          JObject [
            (''Effect'', JString ''Allow''),
            (''Action'', JArray [
               JString ''ec2:ModifySnapshotAttribute'',
               JString ''ec2:CopySnapshot'',
               JString ''ec2:RegisterImage'',
               JString ''ec2:Describe*'']),
            (''Resource'', JString ''*'')]])]"

text \<open>
  The outer \<open>try\<close> has one handler, for \<open>NoSuchEntityException\<close>; any other exception of
  \<open>get_role\<close> leaves the function. Inside the handler, the second \<open>try\<close> catches every
  \<open>Exception\<close>. \<open>get_waiter\<close> and \<open>wait\<close> are one backend operation here.
\<close>

definition create_iam_role_and_policy :: "env \<Rightarrow> string \<Rightarrow> event list \<times> unit outcome" where
  "create_iam_role_and_policy iam s3_bucket =
     (let tr0 = [Print Stdout ''Checking for existing IAM role...'', Call (GetRole IAM_ROLE_NAME)];
          failed = (\<lambda>tr e. (tr @ [Print Stderr (''Error creating IAM role or policy: '' @ str_exc e)],
                             Exit 1))
      in case get_role iam IAM_ROLE_NAME of
           Returns r \<Rightarrow>
             (tr0 @ [Print Stdout (''IAM role '' @ [CHR 0x27] @ IAM_ROLE_NAME @ [CHR 0x27]
                       @ '' already exists. Skipping creation.'')], Return ())
         | Raises (NoSuchEntityException m) \<Rightarrow>
             (let tr1 = tr0 @
                    [Print Stdout (''IAM role '' @ [CHR 0x27] @ IAM_ROLE_NAME @ [CHR 0x27]
                       @ '' not found. Creating...''),
                     Call (CreateRole IAM_ROLE_NAME (json_dumps trust_policy))]
              in case create_role iam IAM_ROLE_NAME (json_dumps trust_policy) of
                   Raises e \<Rightarrow> failed tr1 e
                 | Returns u \<Rightarrow>
                     (let doc = json_dumps (role_policy s3_bucket);
                          tr2 = tr1 @
                            [Print Stdout ''IAM role created successfully.'',
                             Call (PutRolePolicy IAM_ROLE_NAME IAM_POLICY_NAME doc)]
                      in case put_role_policy iam IAM_ROLE_NAME IAM_POLICY_NAME doc of
                           Raises e \<Rightarrow> failed tr2 e
                         | Returns u \<Rightarrow>
                             (let tr3 = tr2 @
                                    [Print Stdout ''IAM role policy attached successfully.'',
                                     Print Stdout ''Waiting for IAM role to propagate...'',
                                     Call (WaitRoleExists IAM_ROLE_NAME)]
                              in case wait_role_exists iam IAM_ROLE_NAME of
                                   Raises e \<Rightarrow> failed tr3 e
                                 | Returns u \<Rightarrow>
                                     (tr3 @ [Print Stdout ''IAM role is now available.''],
                                      Return ()))))
         | Raises e \<Rightarrow> (tr0, Uncaught e))"

subsection \<open>\<open>upload_ova_to_s3\<close> and \<open>import_image\<close>\<close>

definition upload_ova_to_s3 :: "env \<Rightarrow> string \<Rightarrow> string \<Rightarrow> event list \<times> string outcome" where
  "upload_ova_to_s3 s3 bucket_name file_path =
     (let file_name = basename file_path;
          tr = [Print Stdout (''Uploading '' @ [CHR 0x27] @ file_name @ [CHR 0x27]
                  @ '' to S3 bucket '' @ [CHR 0x27] @ bucket_name @ [CHR 0x27] @ ''...''),
                Call (UploadFile file_path bucket_name file_name)]
      in case upload_file s3 file_path bucket_name file_name of
           Returns u \<Rightarrow>
             (tr @ [Print Stdout (''Successfully uploaded '' @ [CHR 0x27] @ file_name
                      @ [CHR 0x27] @ '' to S3.'')], Return file_name)
         | Raises e \<Rightarrow>
             (tr @ [Print Stderr (''Error uploading file to S3: '' @ str_exc e)], Exit 1))"

definition import_image ::
  "env \<Rightarrow> string \<Rightarrow> string \<Rightarrow> string \<Rightarrow> event list \<times> string outcome" where
  "import_image ec2 s3_bucket ova_key description =
     (let container = \<lparr>Description = description, Format = ''ova'',
                        UserBucket = \<lparr>S3Bucket = s3_bucket, S3Key = ova_key\<rparr>\<rparr>;
          tr = [Print Stdout ''Initiating VM import task...'',
                Call (ImportImage description [container])];
          failed = (\<lambda>e. (tr @ [Print Stderr (''Error initiating import task: '' @ str_exc e)],
                          Exit 1))
      in case ec2_import_image ec2 description [container] of
           Raises e \<Rightarrow> failed e
         | Returns response \<Rightarrow>
             (case response ''ImportTaskId'' of
                None \<Rightarrow> failed (KeyError ''ImportTaskId'')
              | Some import_task_id \<Rightarrow>
                  (tr @ [Print Stdout (''Import task started. Task ID: '' @ import_task_id)],
                   Return import_task_id)))"

subsection \<open>\<open>monitor_import_task\<close>\<close>

text \<open>
  One pass through the body of the \<open>try\<close> up to the \<open>print\<close>: the query, the two
  subscripts of the response, the status and the message with its default. Any of the
  first three can raise.
\<close>

definition read_task :: "(string \<rightharpoonup> task list) result \<Rightarrow> exc + task \<times> string \<times> string" where
  "read_task r =
     (case r of
        Raises e \<Rightarrow> Inl e
      | Returns response \<Rightarrow>
          (case response ''ImportImageTasks'' of
             None \<Rightarrow> Inl (KeyError ''ImportImageTasks'')
           | Some [] \<Rightarrow> Inl IndexError
           | Some (t # ts) \<Rightarrow>
               (case t ''Status'' of
                  None \<Rightarrow> Inl (KeyError ''Status'')
                | Some status \<Rightarrow>
                    Inr (t, status,
                         (case t ''StatusMessage'' of None \<Rightarrow> ''No message'' | Some m \<Rightarrow> m)))))"

text \<open>
  \<open>while True\<close>: the loop has no bound, so it is a partial function, and \<open>None\<close> is the run
  that never leaves it. \<open>i\<close> counts the queries made so far and \<open>tr\<close> holds the events so
  far.
\<close>

partial_function (option) monitor_loop ::
  "env \<Rightarrow> string \<Rightarrow> nat \<Rightarrow> event list \<Rightarrow> (event list \<times> task outcome) option" where
  "monitor_loop ec2 task_id i tr =
     (case read_task (describe_import_image_tasks ec2 i [task_id]) of
        Inl e \<Rightarrow>
          Some (tr @ [Call (DescribeImportImageTasks [task_id]),
                      Print Stderr (''Error monitoring import task: '' @ str_exc e)], Exit 1)
      | Inr (t, status, status_message) \<Rightarrow>
          if status \<in> set [''completed'', ''deleted'', ''cancelled'']
          then Some (tr @ [Call (DescribeImportImageTasks [task_id]),
                           Print Stdout (''Current status: '' @ status @ '' - '' @ status_message)],
                     Return t)
          else monitor_loop ec2 task_id (Suc i)
                 (tr @ [Call (DescribeImportImageTasks [task_id]),
                        Print Stdout (''Current status: '' @ status @ '' - '' @ status_message),
                        Sleep 30]))"

definition monitor_import_task :: "env \<Rightarrow> string \<Rightarrow> (event list \<times> task outcome) option" where
  "monitor_import_task ec2 task_id =
     monitor_loop ec2 task_id 0 [Print Stdout ''Monitoring import task status...'']"

subsection \<open>\<open>main\<close>\<close>

text \<open>
  Sequencing: the next step runs only when the previous one returned; an exit or an
  uncaught exception ends the run with the events so far.
\<close>

definition and_then ::
  "(event list \<times> 'a outcome) option \<Rightarrow> ('a \<Rightarrow> (event list \<times> 'b outcome) option)
     \<Rightarrow> (event list \<times> 'b outcome) option" where
  "and_then m f =
     (case m of
        None \<Rightarrow> None
      | Some (tr, Return x) \<Rightarrow>
          (case f x of None \<Rightarrow> None | Some (tr', r) \<Rightarrow> Some (tr @ tr', r))
      | Some (tr, Exit n) \<Rightarrow> Some (tr, Exit n)
      | Some (tr, Uncaught e) \<Rightarrow> Some (tr, Uncaught e))"

text \<open>The three \<open>boto3.client\<close> calls inside one \<open>try\<close>.\<close>

definition init_clients :: "env \<Rightarrow> event list \<times> unit outcome" where
  "init_clients env =
     (let failed = (\<lambda>tr e. (tr @ [Print Stderr
            (''Error initializing AWS clients. Ensure Boto3 is installed and your AWS credentials are configured. Details: ''
               @ str_exc e)], Exit 1))
      in case boto3_client env ''iam'' of
           Raises e \<Rightarrow> failed [Call (Client ''iam'')] e
         | Returns u \<Rightarrow>
             (case boto3_client env ''ec2'' of
                Raises e \<Rightarrow> failed [Call (Client ''iam''), Call (Client ''ec2'')] e
              | Returns u \<Rightarrow>
                  (case boto3_client env ''s3'' of
                     Raises e \<Rightarrow>
                       failed [Call (Client ''iam''), Call (Client ''ec2''), Call (Client ''s3'')] e
                   | Returns u \<Rightarrow>
                       ([Call (Client ''iam''), Call (Client ''ec2''), Call (Client ''s3'')],
                        Return ()))))"

text \<open>The last \<open>if\<close> of \<open>main\<close>, on the task record that the monitor returned.\<close>

definition report :: "task \<Rightarrow> event list \<times> unit outcome" where
  "report final_task_status =
     (case final_task_status ''Status'' of
        None \<Rightarrow> ([], Uncaught (KeyError ''Status''))
      | Some status \<Rightarrow>
          if status = ''completed''
          then (case final_task_status ''ImageId'' of
                  None \<Rightarrow> ([], Uncaught (KeyError ''ImageId''))
                | Some ami_id \<Rightarrow>
                    ([Print Stdout (CHR 0x0A # ''--- Conversion Complete ---''),
                      Print Stdout ''The OVA file has been successfully converted to an AMI.'',
                      Print Stdout (''Final AMI Location (ID): '' @ ami_id)], Return ()))
          else ([Print Stdout (CHR 0x0A # ''--- Conversion Failed ---''),
                 Print Stdout ''The import task did not complete successfully.'',
                 Print Stdout (''Final Status: '' @ status),
                 Print Stdout (''Status Message: '' @
                    (case final_task_status ''StatusMessage'' of None \<Rightarrow> ''N/A'' | Some m \<Rightarrow> m))],
                Return ()))"

text \<open>
  \<open>main\<close> from the parsed argument on: \<open>ova_file_path\<close> is the value of \<open>--input\<close>.
\<close>

definition main :: "env \<Rightarrow> string \<Rightarrow> (event list \<times> unit outcome) option" where
  "main env ova_file_path =
     (if \<not> os_path_exists env ova_file_path
      then Some ([Print Stdout ''Starting OVA to AMI conversion script...'',
                  Print Stderr (''Error: OVA file not found at '' @ [CHR 0x27] @ ova_file_path
                     @ [CHR 0x27])], Exit 1)
      else
        and_then (Some ([Print Stdout ''Starting OVA to AMI conversion script...''], Return ()))
          (\<lambda>u.
        and_then (Some (init_clients env)) (\<lambda>u.
          let bucket_name = ''ova-ami-import-'' @ str_int (time_time env) @ ''-''
                              @ take 8 (uuid_uuid4 env);
              ami_description = ''AMI created from '' @ basename ova_file_path
          in
        and_then (Some (create_s3_bucket env bucket_name)) (\<lambda>u.
        and_then (Some (create_iam_role_and_policy env bucket_name)) (\<lambda>u.
        and_then (Some (upload_ova_to_s3 env bucket_name ova_file_path)) (\<lambda>ova_s3_key.
        and_then (Some (import_image env bucket_name ova_s3_key ami_description))
          (\<lambda>import_task_id.
        and_then (monitor_import_task env import_task_id) (\<lambda>final_task_status.
          Some (report final_task_status)))))))))"


section \<open>Vocabulary of the statements\<close>

subsection \<open>The events of the monitor\<close>

text \<open>
  The \<open>i\<close>-th status query is pending when it answers with a task whose status is not
  terminal. \<open>poll_events\<close> are the two events of one query, \<open>pending_rounds i n\<close> those
  of \<open>n\<close> pending queries from the \<open>i\<close>-th on, each followed by its sleep.
\<close>

definition pending_at :: "env \<Rightarrow> string \<Rightarrow> nat \<Rightarrow> bool" where
  "pending_at ec2 task_id i =
     (case read_task (describe_import_image_tasks ec2 i [task_id]) of
        Inl e \<Rightarrow> False
      | Inr (t, status, status_message) \<Rightarrow>
          status \<noteq> ''completed'' \<and> status \<noteq> ''deleted'' \<and> status \<noteq> ''cancelled'')"

definition status_line :: "env \<Rightarrow> string \<Rightarrow> nat \<Rightarrow> string" where
  "status_line ec2 task_id i =
     (case read_task (describe_import_image_tasks ec2 i [task_id]) of
        Inl e \<Rightarrow> []
      | Inr (t, status, status_message) \<Rightarrow> ''Current status: '' @ status @ '' - '' @ status_message)"

definition poll_events :: "env \<Rightarrow> string \<Rightarrow> nat \<Rightarrow> event list" where
  "poll_events ec2 task_id i =
     [Call (DescribeImportImageTasks [task_id]), Print Stdout (status_line ec2 task_id i)]"

fun pending_rounds :: "env \<Rightarrow> string \<Rightarrow> nat \<Rightarrow> nat \<Rightarrow> event list" where
  "pending_rounds ec2 task_id i 0 = []"
| "pending_rounds ec2 task_id i (Suc n) =
     poll_events ec2 task_id i @ [Sleep 30] @ pending_rounds ec2 task_id (Suc i) n"

subsection \<open>What \<open>main\<close> computes on the way\<close>

text \<open>
  The bucket name of a run, and the location constraint that \<open>create_s3_bucket\<close> sends,
  under the names the statements use.
\<close>

definition generated_bucket_name :: "env \<Rightarrow> string" where
  "generated_bucket_name env =
     ''ova-ami-import-'' @ str_int (time_time env) @ ''-'' @ take 8 (uuid_uuid4 env)"


subsection \<open>Reading a policy document\<close>

text \<open>
  The resources on which a policy document allows an action: those of every \<open>Allow\<close>
  statement with an action pattern that covers the action, where \<open>Action\<close> and
  \<open>Resource\<close> are a string or a list of strings.
\<close>

definition json_field :: "string \<Rightarrow> json \<Rightarrow> json option" where
  "json_field k j = (case j of JObject kvs \<Rightarrow> map_of kvs k | JString s \<Rightarrow> None | JArray xs \<Rightarrow> None)"

fun string_list :: "json \<Rightarrow> string list" where
  "string_list (JString s) = [s]"
| "string_list (JArray xs) = concat (map (\<lambda>x. case x of JString s \<Rightarrow> [s] | JArray ys \<Rightarrow> [] | JObject kvs \<Rightarrow> []) xs)"
| "string_list (JObject kvs) = []"

definition statements :: "json \<Rightarrow> json list" where
  "statements doc =
     (case json_field ''Statement'' doc of
        None \<Rightarrow> []
      | Some (JArray sts) \<Rightarrow> sts
      | Some (JObject kvs) \<Rightarrow> [JObject kvs]
      | Some (JString s) \<Rightarrow> [])"

text \<open>
  An action of a statement is a pattern that may hold the wildcards \<open>*\<close> (any
  characters) and \<open>?\<close> (one character); patterns are compared as they are written.
\<close>

fun glob_match :: "string \<Rightarrow> string \<Rightarrow> bool" where
  "glob_match [] [] = True"
| "glob_match [] (y # ys) = False"
| "glob_match (p # ps) [] = (p = CHR ''*'' \<and> glob_match ps [])"
| "glob_match (p # ps) (y # ys) =
     (if p = CHR ''*'' then glob_match ps (y # ys) \<or> glob_match (p # ps) ys
      else (p = CHR ''?'' \<or> p = y) \<and> glob_match ps ys)"

definition statement_resources :: "string \<Rightarrow> json \<Rightarrow> string list" where
  "statement_resources action st =
     (case (json_field ''Effect'' st, json_field ''Action'' st, json_field ''Resource'' st) of
        (Some effect, Some actions, Some resources) \<Rightarrow>
          if effect = JString ''Allow''
             \<and> list_ex (\<lambda>pattern. glob_match pattern action) (string_list actions)
          then string_list resources else []
      | (Some effect, Some actions, None) \<Rightarrow> []
      | (Some effect, None, r) \<Rightarrow> []
      | (None, a, r) \<Rightarrow> [])"

definition allowed_resources :: "string \<Rightarrow> json \<Rightarrow> string list" where
  "allowed_resources action doc = concat (map (statement_resources action) (statements doc))"

text \<open>
  The \<open>put_role_policy\<close> calls in a sequence of events: role name, policy name and policy
  document of each.
\<close>

fun put_role_policy_calls :: "event list \<Rightarrow> (string \<times> string \<times> string) list" where
  "put_role_policy_calls [] = []"
| "put_role_policy_calls (Call (PutRolePolicy role policy doc) # evs) =
     (role, policy, doc) # put_role_policy_calls evs"
| "put_role_policy_calls (ev # evs) = put_role_policy_calls evs"

subsection \<open>Reading JSON text\<close>

text \<open>
  A reader of JSON text, written from the grammar of JSON and not from \<open>json_dumps\<close>:
  strings with their escapes, arrays and objects, with white space between the tokens.
  Numbers and the literals \<open>true\<close>, \<open>false\<close> and \<open>null\<close> are not read. \<open>read_string\<close>
  reads the body of a string, from behind its opening quote up to the closing quote, and
  returns the characters it stands for and the text that follows; an escape
  \<open>\uXXXX\<close> beyond code point 255 is not read.
\<close>

definition hex_value :: "char \<Rightarrow> nat option" where
  "hex_value c =
     (let n = (of_char c :: nat) in
      if 48 \<le> n \<and> n \<le> 57 then Some (n - 48)
      else if 97 \<le> n \<and> n \<le> 102 then Some (n - 87)
      else if 65 \<le> n \<and> n \<le> 70 then Some (n - 55)
      else None)"

definition push :: "char \<Rightarrow> (string \<times> string) option \<Rightarrow> (string \<times> string) option" where
  "push c r = (case r of None \<Rightarrow> None | Some (s, rest) \<Rightarrow> Some (c # s, rest))"

function read_string :: "string \<Rightarrow> (string \<times> string) option" where
  "read_string [] = None"
| "read_string (c # cs) =
     (if c = CHR 0x22 then Some ([], cs)
      else if c = CHR 0x5C then
        (case cs of
           [] \<Rightarrow> None
         | e # r \<Rightarrow>
             if e = CHR 0x22 \<or> e = CHR 0x5C \<or> e = CHR ''/'' then push e (read_string r)
             else if e = CHR ''b'' then push (CHR 0x08) (read_string r)
             else if e = CHR ''f'' then push (CHR 0x0C) (read_string r)
             else if e = CHR ''n'' then push (CHR 0x0A) (read_string r)
             else if e = CHR ''r'' then push (CHR 0x0D) (read_string r)
             else if e = CHR ''t'' then push (CHR 0x09) (read_string r)
             else if e = CHR ''u'' then
               (case r of
                  h1 # h2 # h3 # h4 # r' \<Rightarrow>
                    (case (hex_value h1, hex_value h2, hex_value h3, hex_value h4) of
                       (Some a, Some b, Some x, Some y) \<Rightarrow>
                         if a = 0 \<and> b = 0
                         then push (char_of (16 * x + y)) (read_string r')
                         else None
                     | _ \<Rightarrow> None)
                | _ \<Rightarrow> None)
             else None)
      else if (of_char c :: nat) < 32 then None
      else push c (read_string cs))"
  by pat_completeness auto
termination
  by (relation "measure length") auto

definition skip_ws :: "string \<Rightarrow> string" where
  "skip_ws = dropWhile (\<lambda>c. c = CHR '' '' \<or> c = CHR 0x0A \<or> c = CHR 0x0D \<or> c = CHR 0x09)"

text \<open>
  The readers of values, of the elements of an array and of the members of an object
  call each other; the first argument bounds the number of nested calls, and
  \<open>json_loads\<close> starts with twice the length of the text. \<open>json_loads\<close> reads one value
  and accepts nothing but white space behind it.
\<close>

fun read_value :: "nat \<Rightarrow> string \<Rightarrow> (json \<times> string) option"
  and read_elements :: "nat \<Rightarrow> string \<Rightarrow> (json list \<times> string) option"
  and read_members :: "nat \<Rightarrow> string \<Rightarrow> ((string \<times> json) list \<times> string) option" where
  "read_value 0 cs = None"
| "read_value (Suc n) cs =
     (case skip_ws cs of
        [] \<Rightarrow> None
      | c # r \<Rightarrow>
          if c = CHR 0x22 then
            (case read_string r of None \<Rightarrow> None | Some (s, rest) \<Rightarrow> Some (JString s, rest))
          else if c = CHR ''['' then
            (case skip_ws r of
               [] \<Rightarrow> None
             | d # r' \<Rightarrow>
                 if d = CHR '']'' then Some (JArray [], r')
                 else (case read_elements n r of
                         None \<Rightarrow> None
                       | Some (xs, rest) \<Rightarrow> Some (JArray xs, rest)))
          else if c = CHR ''{'' then
            (case skip_ws r of
               [] \<Rightarrow> None
             | d # r' \<Rightarrow>
                 if d = CHR ''}'' then Some (JObject [], r')
                 else (case read_members n r of
                         None \<Rightarrow> None
                       | Some (kvs, rest) \<Rightarrow> Some (JObject kvs, rest)))
          else None)"
| "read_elements 0 cs = None"
| "read_elements (Suc n) cs =
     (case read_value n cs of
        None \<Rightarrow> None
      | Some (x, rest) \<Rightarrow>
          (case skip_ws rest of
             [] \<Rightarrow> None
           | d # r \<Rightarrow>
               if d = CHR '','' then
                 (case read_elements n r of
                    None \<Rightarrow> None
                  | Some (xs, rest') \<Rightarrow> Some (x # xs, rest'))
               else if d = CHR '']'' then Some ([x], r)
               else None))"
| "read_members 0 cs = None"
| "read_members (Suc n) cs =
     (case skip_ws cs of
        [] \<Rightarrow> None
      | c # r \<Rightarrow>
          if c = CHR 0x22 then
            (case read_string r of
               None \<Rightarrow> None
             | Some (k, rest) \<Rightarrow>
                 (case skip_ws rest of
                    [] \<Rightarrow> None
                  | d # r' \<Rightarrow>
                      if d = CHR '':'' then
                        (case read_value n r' of
                           None \<Rightarrow> None
                         | Some (v, rest') \<Rightarrow>
                             (case skip_ws rest' of
                                [] \<Rightarrow> None
                              | e # r'' \<Rightarrow>
                                  if e = CHR '','' then
                                    (case read_members n r'' of
                                       None \<Rightarrow> None
                                     | Some (kvs, rest'') \<Rightarrow> Some ((k, v) # kvs, rest''))
                                  else if e = CHR ''}'' then Some ([(k, v)], r'')
                                  else None))
                      else None))
          else None)"

definition json_loads :: "string \<Rightarrow> json option" where
  "json_loads cs =
     (case read_value (Suc (2 * length cs)) cs of
        None \<Rightarrow> None
      | Some (v, rest) \<Rightarrow> if skip_ws rest = [] then Some v else None)"

subsection \<open>The text of the permission policy\<close>

text \<open>
  The characters that need no escape in a JSON string: printable ASCII other than the
  double quote and the backslash.
\<close>

definition plain_char :: "char \<Rightarrow> bool" where
  "plain_char c =
     (32 \<le> (of_char c :: nat) \<and> (of_char c :: nat) \<le> 126 \<and> c \<noteq> CHR 0x22 \<and> c \<noteq> CHR 0x5C)"

text \<open>Printable ASCII: all that \<open>json.dumps\<close> writes by default.\<close>

definition ascii_char :: "char \<Rightarrow> bool" where
  "ascii_char c = (32 \<le> (of_char c :: nat) \<and> (of_char c :: nat) \<le> 126)"

definition in_quotes :: "string \<Rightarrow> string" where
  "in_quotes s = CHR 0x22 # s @ [CHR 0x22]"

text \<open>
  The text that the interpreter's \<open>json.dumps\<close> prints for the permission policy, with
  \<open>q\<close> where the bucket name stands inside the two resource strings.
\<close>

definition policy_document :: "string \<Rightarrow> string" where
  "policy_document q =
     ''{'' @ in_quotes ''Version'' @ '': '' @ in_quotes ''2012-10-17'' @ '', ''
       @ in_quotes ''Statement'' @ '': [{''
       @ in_quotes ''Effect'' @ '': '' @ in_quotes ''Allow'' @ '', ''
       @ in_quotes ''Action'' @ '': ['' @ in_quotes ''s3:GetBucketLocation'' @ '', ''
       @ in_quotes ''s3:GetObject'' @ '', '' @ in_quotes ''s3:ListBucket'' @ ''], ''
       @ in_quotes ''Resource'' @ '': [''
       @ in_quotes (''arn:aws:s3:::'' @ q) @ '', ''
       @ in_quotes (''arn:aws:s3:::'' @ q @ ''/*'') @ '']}, {''
       @ in_quotes ''Effect'' @ '': '' @ in_quotes ''Allow'' @ '', ''
       @ in_quotes ''Action'' @ '': ['' @ in_quotes ''ec2:ModifySnapshotAttribute'' @ '', ''
       @ in_quotes ''ec2:CopySnapshot'' @ '', '' @ in_quotes ''ec2:RegisterImage'' @ '', ''
       @ in_quotes ''ec2:Describe*'' @ ''], ''
       @ in_quotes ''Resource'' @ '': '' @ in_quotes ''*'' @ ''}]}''"

subsection \<open>Sample backends\<close>

text \<open>
  A backend for the file \<open>vm.ova\<close> in region \<open>us-east-1\<close> that accepts every call, up
  to three choices: the answer of \<open>create_bucket\<close>, the answer of \<open>get_role\<close> and the
  answers of the status query.
\<close>

definition active_task :: task where
  "active_task = [''Status'' \<mapsto> ''active'', ''StatusMessage'' \<mapsto> ''converting'']"

definition completed_task :: task where
  "completed_task = [''Status'' \<mapsto> ''completed'', ''ImageId'' \<mapsto> ''ami-0123456789abcdef0'']"

definition cancelled_task :: task where
  "cancelled_task = [''Status'' \<mapsto> ''cancelled'', ''StatusMessage'' \<mapsto> ''User cancelled'']"

definition deleted_task :: task where
  "deleted_task = [''Status'' \<mapsto> ''deleted'']"

definition completed_task_without_image :: task where
  "completed_task_without_image = [''Status'' \<mapsto> ''completed'']"

definition answer :: "task \<Rightarrow> (string \<rightharpoonup> task list) result" where
  "answer t = Returns [''ImportImageTasks'' \<mapsto> [t]]"

definition backend ::
  "unit result \<Rightarrow> json result \<Rightarrow> (nat \<Rightarrow> (string \<rightharpoonup> task list) result) \<Rightarrow> env" where
  "backend bucket_answer role_answer answers =
     \<lparr>os_path_exists = (\<lambda>p. p = ''vm.ova''),
      boto3_client = (\<lambda>service. Returns ()),
      time_time = 1700000000,
      uuid_uuid4 = ''3f2a9c1e-7b4d-4e8a-9c0f-1a2b3c4d5e6f'',
      region_name = ''us-east-1'',
      create_bucket = (\<lambda>bucket config. bucket_answer),
      get_role = (\<lambda>role. role_answer),
      create_role = (\<lambda>role doc. Returns ()),
      put_role_policy = (\<lambda>role policy doc. Returns ()),
      wait_role_exists = (\<lambda>role. Returns ()),
      upload_file = (\<lambda>path bucket key. Returns ()),
      ec2_import_image = (\<lambda>description containers. Returns [''ImportTaskId'' \<mapsto> ''import-ami-1'']),
      describe_import_image_tasks = (\<lambda>i ids. answers i)\<rparr>"

definition no_such_role :: "json result" where
  "no_such_role = Raises (NoSuchEntityException ''The role with name vmimport cannot be found.'')"

definition accepting_backend :: "(nat \<Rightarrow> (string \<rightharpoonup> task list) result) \<Rightarrow> env" where
  "accepting_backend answers = backend (Returns ()) no_such_role answers"


definition access_denied :: "'a result" where
  "access_denied = Raises (OtherException ''An error occurred (AccessDenied): Access Denied'')"

definition existing_role :: json where
  "existing_role =
     JObject [(''Role'', JObject [(''RoleName'', JString ''vmimport''),
                                   (''AssumeRolePolicyDocument'', JString ''{}'')])]"

definition sample_bucket :: string where
  "sample_bucket = ''ova-ami-import-1700000000-3f2a9c1e''"

text \<open>
  What a run against the accepting backend has done when the monitor starts.
\<close>

definition accepted_events :: "event list" where
  "accepted_events =
     [Print Stdout ''Starting OVA to AMI conversion script...'',
      Call (Client ''iam''), Call (Client ''ec2''), Call (Client ''s3''),
      Print Stdout ''Attempting to create S3 bucket: ova-ami-import-1700000000-3f2a9c1e'',
      Call (CreateBucket sample_bucket None),
      Print Stdout ''Successfully created S3 bucket: ova-ami-import-1700000000-3f2a9c1e'',
      Print Stdout ''Checking for existing IAM role...'',
      Call (GetRole ''vmimport''),
      Print Stdout ''IAM role 'vmimport' not found. Creating...'',
      Call (CreateRole ''vmimport'' (json_dumps trust_policy)),
      Print Stdout ''IAM role created successfully.'',
      Call (PutRolePolicy ''vmimport'' ''vmimport'' (json_dumps (role_policy sample_bucket))),
      Print Stdout ''IAM role policy attached successfully.'',
      Print Stdout ''Waiting for IAM role to propagate...'',
      Call (WaitRoleExists ''vmimport''),
      Print Stdout ''IAM role is now available.'',
      Print Stdout ''Uploading 'vm.ova' to S3 bucket 'ova-ami-import-1700000000-3f2a9c1e'...'',
      Call (UploadFile ''vm.ova'' sample_bucket ''vm.ova''),
      Print Stdout ''Successfully uploaded 'vm.ova' to S3.'',
      Print Stdout ''Initiating VM import task...'',
      Call (ImportImage ''AMI created from vm.ova''
              [\<lparr>Description = ''AMI created from vm.ova'', Format = ''ova'',
                UserBucket = \<lparr>S3Bucket = sample_bucket, S3Key = ''vm.ova''\<rparr>\<rparr>]),
      Print Stdout ''Import task started. Task ID: import-ami-1'',
      Print Stdout ''Monitoring import task status...'']"

section \<open>Properties\<close>

subsection \<open>Formatting\<close>

text \<open>The formatting functions on values whose output the interpreter gives.\<close>

lemma str_int_sample: "str_int 1700000000 = ''1700000000''"
  by (simp add: str_int_def str_nat.simps digit_char_def)

lemma str_int_negative: "str_int (- 42) = ''-42''"
  by (simp add: str_int_def str_nat.simps digit_char_def)

lemma escape_char_del: "escape_char (CHR 0x7F) = [CHR 0x5C, CHR ''u'', CHR ''0'', CHR ''0'', CHR ''7'', CHR ''f'']"
  by (simp add: escape_char_def hex_char_def)

lemma escape_char_latin: "escape_char (CHR 0xE9) = [CHR 0x5C, CHR ''u'', CHR ''0'', CHR ''0'', CHR ''e'', CHR ''9'']"
  by (simp add: escape_char_def hex_char_def)

lemma escape_char_newline: "escape_char (CHR 0x0A) = [CHR 0x5C, CHR ''n'']"
  by (simp add: escape_char_def hex_char_def)

lemma escape_char_tilde: "escape_char (CHR ''~'') = ''~''"
  by (simp add: escape_char_def hex_char_def)

lemma basename_sample: "basename ''vm.ova'' = ''vm.ova''"
  by (simp add: basename_def)

lemma basename_examples: "basename ''a/b/vm.ova'' = ''vm.ova''" "basename ''a/'' = []"
  by (simp_all add: basename_def)

lemma json_dumps_trust_policy:
  "json_dumps trust_policy =
     [CHR 0x7B, CHR 0x22] @ ''Version'' @ [CHR 0x22] @ '': '' @ [CHR 0x22] @ ''2012-10-17'' @ [CHR 0x22]
     @ '', '' @ [CHR 0x22] @ ''Statement'' @ [CHR 0x22] @ '': [{'' @ [CHR 0x22] @ ''Effect'' @ [CHR 0x22]
     @ '': '' @ [CHR 0x22] @ ''Allow'' @ [CHR 0x22] @ '', '' @ [CHR 0x22] @ ''Principal'' @ [CHR 0x22]
     @ '': {'' @ [CHR 0x22] @ ''Service'' @ [CHR 0x22] @ '': '' @ [CHR 0x22] @ ''vmie.amazonaws.com''
     @ [CHR 0x22] @ ''}, '' @ [CHR 0x22] @ ''Action'' @ [CHR 0x22] @ '': '' @ [CHR 0x22]
     @ ''sts:AssumeRole'' @ [CHR 0x22] @ '', '' @ [CHR 0x22] @ ''Condition'' @ [CHR 0x22] @ '': {''
     @ [CHR 0x22] @ ''StringEquals'' @ [CHR 0x22] @ '': {'' @ [CHR 0x22] @ ''sts:ExternalId''
     @ [CHR 0x22] @ '': '' @ [CHR 0x22] @ ''vmimport'' @ [CHR 0x22] @ ''}}}]}''"
  by (simp add: trust_policy_def encode_string_def escape_char_def)

subsection \<open>Sequencing in \<open>main\<close>\<close>

lemma and_then_Return:
  "and_then (Some (tr, Return x)) f =
     (case f x of None \<Rightarrow> None | Some (tr', r) \<Rightarrow> Some (tr @ tr', r))"
  by (simp add: and_then_def)


lemma and_then_Uncaught: "and_then (Some (tr, Uncaught e)) f = Some (tr, Uncaught e)"
  by (simp add: and_then_def)


text \<open>A run in which every stage returns ends with the report on the monitor's task.\<close>

lemma main_reaches_report:
  assumes "os_path_exists env p"
      and "init_clients env = (tr1, Return ())"
      and "create_s3_bucket env (generated_bucket_name env) = (tr2, Return ())"
      and "create_iam_role_and_policy env (generated_bucket_name env) = (tr3, Return ())"
      and "upload_ova_to_s3 env (generated_bucket_name env) p = (tr4, Return key)"
      and "import_image env (generated_bucket_name env) key (''AMI created from '' @ basename p)
             = (tr5, Return task_id)"
      and "monitor_import_task env task_id = Some (tr6, Return t)"
  shows "main env p =
           Some (Print Stdout ''Starting OVA to AMI conversion script...''
                   # tr1 @ tr2 @ tr3 @ tr4 @ tr5 @ tr6 @ fst (report t), snd (report t))"
proof -
  obtain tr7 r where rep: "report t = (tr7, r)"
    by (cases "report t")
  show ?thesis
    using assms
    by (simp add: main_def generated_bucket_name_def Let_def and_then_Return rep)
qed



lemma main_role_stage_uncaught:
  assumes "os_path_exists env p"
      and "init_clients env = (tr1, Return ())"
      and "create_s3_bucket env (generated_bucket_name env) = (tr2, Return ())"
      and "create_iam_role_and_policy env (generated_bucket_name env) = (tr3, Uncaught e)"
  shows "main env p =
           Some (Print Stdout ''Starting OVA to AMI conversion script...'' # tr1 @ tr2 @ tr3,
                 Uncaught e)"
  using assms
  by (simp add: main_def generated_bucket_name_def Let_def and_then_Return and_then_Uncaught)

subsection \<open>The stages\<close>




lemma allowed_resources_role_policy:
  assumes "a = ''s3:GetBucketLocation'' \<or> a = ''s3:GetObject'' \<or> a = ''s3:ListBucket''"
  shows "allowed_resources a (role_policy b) =
           [''arn:aws:s3:::'' @ b, ''arn:aws:s3:::'' @ b @ ''/*'']"
  using assms
  by (auto simp: allowed_resources_def statements_def role_policy_def json_field_def
      statement_resources_def)

subsection \<open>The text of the permission policy\<close>

lemma json_dumps_role_policy:
  "json_dumps (role_policy b) = policy_document (concat (map escape_char b))"
  by (simp add: role_policy_def encode_string_def escape_char_def in_quotes_def
      policy_document_def)

lemma escape_plain_char: "plain_char c \<Longrightarrow> escape_char c = [c]"
  by (auto simp: plain_char_def escape_char_def Let_def)

lemma escape_plain: "list_all plain_char b \<Longrightarrow> concat (map escape_char b) = b"
  by (induction b) (simp_all add: escape_plain_char)

text \<open>What \<open>escape_char\<close> writes, \<open>read_string\<close> reads back, for every character.\<close>

lemma below_16:
  assumes "d < (16::nat)"
  shows "d = 0 \<or> d = 1 \<or> d = 2 \<or> d = 3 \<or> d = 4 \<or> d = 5 \<or> d = 6 \<or> d = 7 \<or> d = 8
    \<or> d = 9 \<or> d = 10 \<or> d = 11 \<or> d = 12 \<or> d = 13 \<or> d = 14 \<or> d = 15"
  using assms by arith

lemma hex_value_hex_char:
  assumes "d < 16"
  shows "hex_value (hex_char d) = Some d"
  using below_16 [OF assms] by (auto simp: hex_value_def hex_char_def)

lemma read_string_escape_char:
  "read_string (escape_char c @ rest) = push c (read_string rest)"
proof -
  let ?n = "of_char c :: nat"
  have lt: "?n < 256" by simp
  have hi: "hex_value (hex_char (?n div 16)) = Some (?n div 16)"
  proof (rule hex_value_hex_char)
    from lt show "?n div 16 < 16" by arith
  qed
  have lo: "hex_value (hex_char (?n mod 16)) = Some (?n mod 16)"
    by (intro hex_value_hex_char) simp
  have zero: "hex_value (CHR ''0'') = Some 0"
    by (simp add: hex_value_def)
  have recompose: "char_of (16 * (?n div 16) + ?n mod 16) = c"
    by simp
  have short: "?n = 8 \<Longrightarrow> c = CHR 0x08" "?n = 12 \<Longrightarrow> c = CHR 0x0C" "?n = 10 \<Longrightarrow> c = CHR 0x0A"
    "?n = 13 \<Longrightarrow> c = CHR 0x0D" "?n = 9 \<Longrightarrow> c = CHR 0x09"
    by (auto intro!: of_char_eqI [where ?'a = nat])
  show ?thesis
    using hi lo zero recompose short
    by (auto simp: escape_char_def Let_def)
qed

lemma read_string_escaped:
  "read_string (concat (map escape_char b) @ rest) =
     (case read_string rest of None \<Rightarrow> None | Some (s, r) \<Rightarrow> Some (b @ s, r))"
  by (induction b)
     (auto simp: read_string_escape_char push_def split: option.splits
        simp del: read_string.simps)

lemma hex_char_ascii:
  assumes "d < 16"
  shows "ascii_char (hex_char d)"
  using below_16 [OF assms] by (auto simp: ascii_char_def hex_char_def)

lemma escape_char_ascii: "list_all ascii_char (escape_char c)"
proof -
  let ?n = "of_char c :: nat"
  have lt: "?n < 256" by simp
  have hi: "ascii_char (hex_char (?n div 16))"
  proof (rule hex_char_ascii)
    from lt show "?n div 16 < 16" by arith
  qed
  have lo: "ascii_char (hex_char (?n mod 16))"
    by (intro hex_char_ascii) simp
  have fixed: "ascii_char (CHR 0x5C)" "ascii_char (CHR 0x22)" "ascii_char (CHR ''b'')"
    "ascii_char (CHR ''f'')" "ascii_char (CHR ''n'')" "ascii_char (CHR ''r'')"
    "ascii_char (CHR ''t'')" "ascii_char (CHR ''u'')" "ascii_char (CHR ''0'')"
    by (simp_all add: ascii_char_def)
  have self: "\<not> (?n < 32 \<or> 126 < ?n) \<Longrightarrow> ascii_char c"
    by (simp add: ascii_char_def)
  show ?thesis
    using hi lo fixed self
    by (auto simp: escape_char_def Let_def)
qed

lemma escaped_ascii: "list_all ascii_char (concat (map escape_char b))"
  by (induction b) (simp_all add: escape_char_ascii)

text \<open>The text of the policy reads back as the policy, for every bucket name.\<close>

lemma read_role_policy:
  "read_value (Suc (Suc (Suc (Suc (Suc (Suc (Suc (Suc (Suc (Suc (Suc (Suc (Suc (Suc (Suc (Suc (Suc (Suc (Suc (Suc (k)))))))))))))))))))))
     (policy_document (concat (map escape_char b))) = Some (role_policy b, [])"
  by (simp add: policy_document_def in_quotes_def role_policy_def skip_ws_def push_def
      read_string_escaped)

lemma enough_fuel:
  "\<exists>k. Suc (2 * length (policy_document q)) = Suc (Suc (Suc (Suc (Suc (Suc (Suc (Suc (Suc (Suc (Suc (Suc (Suc (Suc (Suc (Suc (Suc (Suc (Suc (Suc (k))))))))))))))))))))"
proof
  show "Suc (2 * length (policy_document q)) =
      Suc (Suc (Suc (Suc (Suc (Suc (Suc (Suc (Suc (Suc (Suc (Suc (Suc (Suc (Suc (Suc (Suc (Suc (Suc (Suc ((Suc (2 * length (policy_document q)) - 20)))))))))))))))))))))"
    by (simp add: policy_document_def in_quotes_def)
qed

lemma json_loads_role_policy:
  "json_loads (policy_document (concat (map escape_char b))) = Some (role_policy b)"
proof -
  let ?text = "policy_document (concat (map escape_char b))"
  obtain k where fuel: "Suc (2 * length ?text) =
      Suc (Suc (Suc (Suc (Suc (Suc (Suc (Suc (Suc (Suc (Suc (Suc (Suc (Suc (Suc (Suc (Suc (Suc (Suc (Suc (k))))))))))))))))))))"
    using enough_fuel by blast
  have "read_value (Suc (2 * length ?text)) ?text = Some (role_policy b, [])"
    by (simp only: fuel read_role_policy)
  then show ?thesis
    unfolding json_loads_def by (simp add: skip_ws_def)
qed

subsection \<open>The monitor loop\<close>

lemma monitor_loop_pending_step:
  assumes "pending_at ec2 task_id i"
  shows "monitor_loop ec2 task_id i tr =
           monitor_loop ec2 task_id (Suc i) (tr @ poll_events ec2 task_id i @ [Sleep 30])"
  using assms
  by (subst monitor_loop.simps)
     (auto simp: pending_at_def poll_events_def status_line_def split: sum.splits)

lemma monitor_loop_pending:
  "(\<And>j. j < n \<Longrightarrow> pending_at ec2 task_id (i + j)) \<Longrightarrow>
     monitor_loop ec2 task_id i tr =
       monitor_loop ec2 task_id (i + n) (tr @ pending_rounds ec2 task_id i n)"
proof (induction n arbitrary: i tr)
  case 0
  show ?case by simp
next
  case (Suc n)
  have first: "pending_at ec2 task_id i"
    using Suc.prems [of 0] by simp
  have rest: "\<And>j. j < n \<Longrightarrow> pending_at ec2 task_id (Suc i + j)"
    using Suc.prems [of "Suc j" for j] by simp
  show ?case
    using monitor_loop_pending_step [OF first, of tr] Suc.IH [OF rest]
    by simp
qed

lemma monitor_loop_terminal:
  assumes "read_task (describe_import_image_tasks ec2 i [task_id]) = Inr (t, status, msg)"
      and "status \<in> set [''completed'', ''deleted'', ''cancelled'']"
  shows "monitor_loop ec2 task_id i tr = Some (tr @ poll_events ec2 task_id i, Return t)"
  using assms
  by (subst monitor_loop.simps) (simp add: poll_events_def status_line_def)

lemma monitor_loop_error:
  assumes "read_task (describe_import_image_tasks ec2 i [task_id]) = Inl e"
  shows "monitor_loop ec2 task_id i tr =
           Some (tr @ [Call (DescribeImportImageTasks [task_id]),
                       Print Stderr (''Error monitoring import task: '' @ str_exc e)], Exit 1)"
  using assms
  by (subst monitor_loop.simps) simp

text \<open>
  A loop that returns has met an answer that is not pending; so against answers that are
  all pending it does not return.
\<close>

lemma monitor_loop_returns_not_pending:
  assumes "monitor_loop ec2 task_id i tr = Some r"
  shows "\<exists>j. i \<le> j \<and> \<not> pending_at ec2 task_id j"
proof (rule monitor_loop.raw_induct
    [where P = "\<lambda>ec2 task_id i tr r. \<exists>j. i \<le> j \<and> \<not> pending_at ec2 task_id j", OF _ assms])
  fix loop :: "env \<Rightarrow> string \<Rightarrow> nat \<Rightarrow> event list \<Rightarrow> (event list \<times> task outcome) option"
  fix e :: env and k :: string and n :: nat and acc :: "event list" and y
  assume IH: "\<And>e k n acc y. loop e k n acc = Some y \<Longrightarrow> \<exists>j. n \<le> j \<and> \<not> pending_at e k j"
  assume body: "(case read_task (describe_import_image_tasks e n [k]) of
      Inl x \<Rightarrow> Some (acc @ [Call (DescribeImportImageTasks [k]),
                  Print Stderr (''Error monitoring import task: '' @ str_exc x)], Exit 1)
    | Inr (t, status, status_message) \<Rightarrow>
        if status \<in> set [''completed'', ''deleted'', ''cancelled'']
        then Some (acc @ [Call (DescribeImportImageTasks [k]),
                    Print Stdout (''Current status: '' @ status @ '' - '' @ status_message)],
                   Return t)
        else loop e k (Suc n)
               (acc @ [Call (DescribeImportImageTasks [k]),
                  Print Stdout (''Current status: '' @ status @ '' - '' @ status_message),
                  Sleep 30])) = Some y"
  show "\<exists>j. n \<le> j \<and> \<not> pending_at e k j"
  proof (cases "pending_at e k n")
    case False
    then show ?thesis by blast
  next
    case True
    then obtain t status msg where
      rd: "read_task (describe_import_image_tasks e n [k]) = Inr (t, status, msg)"
      and nt: "status \<notin> set [''completed'', ''deleted'', ''cancelled'']"
      by (auto simp: pending_at_def split: sum.splits)
    from body rd nt obtain acc' where "loop e k (Suc n) acc' = Some y"
      by simp
    from IH [OF this] obtain j where "Suc n \<le> j" "\<not> pending_at e k j"
      by blast
    then show ?thesis
      using Suc_leD by blast
  qed
qed

lemma monitor_loop_diverges:
  assumes "\<And>j. pending_at ec2 task_id j"
  shows "monitor_loop ec2 task_id i tr = None"
proof (cases "monitor_loop ec2 task_id i tr")
  case None
  then show ?thesis .
next
  case (Some r)
  from monitor_loop_returns_not_pending [OF Some] assms show ?thesis
    by blast
qed

lemma calls_pending_rounds:
  "filter is_call (pending_rounds ec2 task_id i n) =
     replicate n (Call (DescribeImportImageTasks [task_id]))"
  by (induction n arbitrary: i) (simp_all add: poll_events_def)

lemma sleeps_pending_rounds:
  "filter is_sleep (pending_rounds ec2 task_id i n) = replicate n (Sleep 30)"
  by (induction n arbitrary: i) (simp_all add: poll_events_def)

subsection \<open>Runs against the sample backends\<close>

lemma describe_backend:
  "describe_import_image_tasks (backend cb gr answers) i ids = answers i"
  by (simp add: backend_def)

lemma describe_accepting_backend:
  "describe_import_image_tasks (accepting_backend answers) i ids = answers i"
  by (simp add: accepting_backend_def backend_def)

lemma read_task_answer:
  "read_task (answer t) =
     (case t ''Status'' of
        None \<Rightarrow> Inl (KeyError ''Status'')
      | Some status \<Rightarrow>
          Inr (t, status, case t ''StatusMessage'' of None \<Rightarrow> ''No message'' | Some m \<Rightarrow> m))"
  by (simp add: read_task_def answer_def)



lemma bucket_name_accepting:
  "generated_bucket_name (backend cb gr a) = sample_bucket"
  by (simp add: generated_bucket_name_def backend_def str_int_sample sample_bucket_def)

lemma monitor_first_answer:
  "monitor_import_task (backend cb gr (\<lambda>i. answer t)) task_id =
     (case t ''Status'' of
        None \<Rightarrow>
          Some ([Print Stdout ''Monitoring import task status...'',
                 Call (DescribeImportImageTasks [task_id]),
                 Print Stderr (''Error monitoring import task: '' @ str_exc (KeyError ''Status''))],
                Exit 1)
      | Some status \<Rightarrow>
          if status \<in> set [''completed'', ''deleted'', ''cancelled'']
          then Some ([Print Stdout ''Monitoring import task status...'',
                      Call (DescribeImportImageTasks [task_id]),
                      Print Stdout (''Current status: '' @ status @ '' - '' @
                         (case t ''StatusMessage'' of None \<Rightarrow> ''No message'' | Some m \<Rightarrow> m))],
                     Return t)
          else None)"
proof (cases "t ''Status''")
  case None
  then show ?thesis
    unfolding monitor_import_task_def
    by (simp add: monitor_loop_error describe_backend read_task_answer)
next
  case (Some status)
  show ?thesis
  proof (cases "status \<in> set [''completed'', ''deleted'', ''cancelled'']")
    case True
    with Some show ?thesis
      unfolding monitor_import_task_def
      by (simp add: monitor_loop_terminal [where status = status]
          describe_backend read_task_answer poll_events_def status_line_def)
  next
    case False
    with Some have "\<And>j. pending_at (backend cb gr (\<lambda>i. answer t)) task_id j"
      by (simp add: pending_at_def describe_backend read_task_answer)
    with Some False show ?thesis
      unfolding monitor_import_task_def by (simp add: monitor_loop_diverges)
  qed
qed

lemma accepted_path: "os_path_exists (backend cb gr a) ''vm.ova''"
  by (simp add: backend_def)

lemma accepted_clients:
  "init_clients (backend cb gr a) =
     ([Call (Client ''iam''), Call (Client ''ec2''), Call (Client ''s3'')], Return ())"
  by (simp add: backend_def init_clients_def)

lemma accepted_bucket:
  "create_s3_bucket (backend (Returns ()) gr a) sample_bucket =
     ([Print Stdout ''Attempting to create S3 bucket: ova-ami-import-1700000000-3f2a9c1e'',
       Call (CreateBucket sample_bucket None),
       Print Stdout ''Successfully created S3 bucket: ova-ami-import-1700000000-3f2a9c1e''],
      Return ())"
  by (simp add: backend_def create_s3_bucket_def sample_bucket_def)

lemma accepted_role:
  "create_iam_role_and_policy (backend cb no_such_role a) sample_bucket =
     ([Print Stdout ''Checking for existing IAM role...'',
       Call (GetRole ''vmimport''),
       Print Stdout ''IAM role 'vmimport' not found. Creating...'',
       Call (CreateRole ''vmimport'' (json_dumps trust_policy)),
       Print Stdout ''IAM role created successfully.'',
       Call (PutRolePolicy ''vmimport'' ''vmimport'' (json_dumps (role_policy sample_bucket))),
       Print Stdout ''IAM role policy attached successfully.'',
       Print Stdout ''Waiting for IAM role to propagate...'',
       Call (WaitRoleExists ''vmimport''),
       Print Stdout ''IAM role is now available.''], Return ())"
  by (simp add: backend_def no_such_role_def create_iam_role_and_policy_def IAM_ROLE_NAME_def
      IAM_POLICY_NAME_def Let_def)

lemma accepted_upload:
  "upload_ova_to_s3 (backend cb gr a) sample_bucket ''vm.ova'' =
     ([Print Stdout ''Uploading 'vm.ova' to S3 bucket 'ova-ami-import-1700000000-3f2a9c1e'...'',
       Call (UploadFile ''vm.ova'' sample_bucket ''vm.ova''),
       Print Stdout ''Successfully uploaded 'vm.ova' to S3.''], Return ''vm.ova'')"
  by (simp add: backend_def upload_ova_to_s3_def basename_sample sample_bucket_def Let_def)

lemma accepted_import:
  "import_image (backend cb gr a) sample_bucket ''vm.ova''
       (''AMI created from '' @ basename ''vm.ova'') =
     ([Print Stdout ''Initiating VM import task...'',
       Call (ImportImage ''AMI created from vm.ova''
              [\<lparr>Description = ''AMI created from vm.ova'', Format = ''ova'',
                UserBucket = \<lparr>S3Bucket = sample_bucket, S3Key = ''vm.ova''\<rparr>\<rparr>]),
       Print Stdout ''Import task started. Task ID: import-ami-1''], Return ''import-ami-1'')"
  by (simp add: backend_def import_image_def Let_def basename_sample)

lemma main_accepting:
  assumes "monitor_import_task (backend (Returns ()) no_such_role a) ''import-ami-1''
             = Some (Print Stdout ''Monitoring import task status...'' # tr, Return t)"
  shows "main (backend (Returns ()) no_such_role a) ''vm.ova''
           = Some (accepted_events @ tr @ fst (report t), snd (report t))"
proof -
  let ?env = "backend (Returns ()) no_such_role a"
  have name: "generated_bucket_name ?env = sample_bucket"
    by (rule bucket_name_accepting)
  from main_reaches_report [of ?env "''vm.ova''", unfolded name,
      OF accepted_path accepted_clients accepted_bucket accepted_role accepted_upload
         accepted_import assms]
  show ?thesis
    by (simp add: accepted_events_def)
qed

subsection \<open>Exit status\<close>

text \<open>
  Claim C1, evaluated where the code departs from it. Every call is accepted and the
  first status query reports \<open>cancelled\<close> with message \<open>User cancelled\<close>: \<open>main\<close> prints
  the failure report with the status and the message on standard output and then
  returns, so the process ends with exit status 0.
\<close>

theorem cancelled_task_exits_zero:
  "main (accepting_backend (\<lambda>i. answer cancelled_task)) ''vm.ova'' =
     Some (accepted_events @
           [Call (DescribeImportImageTasks [''import-ami-1'']),
            Print Stdout ''Current status: cancelled - User cancelled'',
            Print Stdout (CHR 0x0A # ''--- Conversion Failed ---''),
            Print Stdout ''The import task did not complete successfully.'',
            Print Stdout ''Final Status: cancelled'',
            Print Stdout ''Status Message: User cancelled''],
           Return ())
   \<and> process_exit_code (Return ()) = 0"
proof -
  have mon: "monitor_import_task (backend (Returns ()) no_such_role (\<lambda>i. answer cancelled_task))
      ''import-ami-1'' =
      Some (Print Stdout ''Monitoring import task status...'' #
            [Call (DescribeImportImageTasks [''import-ami-1'']),
             Print Stdout ''Current status: cancelled - User cancelled''],
            Return cancelled_task)"
    by (simp add: monitor_first_answer cancelled_task_def)
  have rep: "report cancelled_task =
      ([Print Stdout (CHR 0x0A # ''--- Conversion Failed ---''),
        Print Stdout ''The import task did not complete successfully.'',
        Print Stdout ''Final Status: cancelled'',
        Print Stdout ''Status Message: User cancelled''], Return ())"
    by (simp add: report_def cancelled_task_def)
  show ?thesis
    unfolding accepting_backend_def
    by (simp add: main_accepting [OF mon] rep)
qed

subsection \<open>Exceptions that nothing catches\<close>

text \<open>
  Claim C2, evaluated where the code departs from it. The bucket is created and
  \<open>get_role\<close> raises an error other than \<open>NoSuchEntityException\<close>: the exception leaves
  \<open>create_iam_role_and_policy\<close> and \<open>main\<close> uncaught, and the script itself prints
  nothing on the error stream.
\<close>

theorem get_role_error_is_uncaught:
  "main (backend (Returns ()) access_denied (\<lambda>i. answer completed_task)) ''vm.ova'' =
     Some ([Print Stdout ''Starting OVA to AMI conversion script...'',
            Call (Client ''iam''), Call (Client ''ec2''), Call (Client ''s3''),
            Print Stdout ''Attempting to create S3 bucket: ova-ami-import-1700000000-3f2a9c1e'',
            Call (CreateBucket sample_bucket None),
            Print Stdout ''Successfully created S3 bucket: ova-ami-import-1700000000-3f2a9c1e'',
            Print Stdout ''Checking for existing IAM role...'',
            Call (GetRole ''vmimport'')],
           Uncaught (OtherException ''An error occurred (AccessDenied): Access Denied''))
   \<and> process_exit_code
         (Uncaught (OtherException ''An error occurred (AccessDenied): Access Denied'')) = 1"
proof -
  let ?env = "backend (Returns ()) access_denied (\<lambda>i. answer completed_task)"
  have name: "generated_bucket_name ?env = sample_bucket"
    by (rule bucket_name_accepting)
  have role: "create_iam_role_and_policy ?env sample_bucket =
      ([Print Stdout ''Checking for existing IAM role...'', Call (GetRole ''vmimport'')],
       Uncaught (OtherException ''An error occurred (AccessDenied): Access Denied''))"
    by (simp add: create_iam_role_and_policy_def backend_def access_denied_def IAM_ROLE_NAME_def)
  from main_role_stage_uncaught [of ?env "''vm.ova''", unfolded name,
      OF accepted_path accepted_clients accepted_bucket role]
  show ?thesis
    by simp
qed

text \<open>
  Claim C10. When every stage returns and the monitor returns a task record with status
  \<open>completed\<close> and no \<open>ImageId\<close>, \<open>main\<close> ends with an uncaught \<open>KeyError\<close> for that key:
  it prints neither a result nor a diagnostic after the monitor's last line.
\<close>

theorem completed_without_image_id_is_uncaught:
  assumes "os_path_exists env p"
      and "init_clients env = (tr1, Return ())"
      and "create_s3_bucket env (generated_bucket_name env) = (tr2, Return ())"
      and "create_iam_role_and_policy env (generated_bucket_name env) = (tr3, Return ())"
      and "upload_ova_to_s3 env (generated_bucket_name env) p = (tr4, Return key)"
      and "import_image env (generated_bucket_name env) key (''AMI created from '' @ basename p)
             = (tr5, Return task_id)"
      and "monitor_import_task env task_id = Some (tr6, Return t)"
      and "t ''Status'' = Some ''completed''"
      and "t ''ImageId'' = None"
  shows "main env p =
           Some (Print Stdout ''Starting OVA to AMI conversion script...''
                   # tr1 @ tr2 @ tr3 @ tr4 @ tr5 @ tr6, Uncaught (KeyError ''ImageId''))"
proof -
  from assms(8,9) have "report t = ([], Uncaught (KeyError ''ImageId''))"
    by (simp add: report_def)
  with main_reaches_report [OF assms(1-7)] show ?thesis
    by simp
qed

text \<open>
  Every call is accepted and the first status query reports \<open>completed\<close> without an
  image identifier.
\<close>

theorem completed_without_image_id_is_uncaught_witness:
  "main (accepting_backend (\<lambda>i. answer completed_task_without_image)) ''vm.ova'' =
     Some (accepted_events @
           [Call (DescribeImportImageTasks [''import-ami-1'']),
            Print Stdout ''Current status: completed - No message''],
           Uncaught (KeyError ''ImageId''))"
proof -
  let ?env = "backend (Returns ()) no_such_role (\<lambda>i. answer completed_task_without_image)"
  have name: "generated_bucket_name ?env = sample_bucket"
    by (rule bucket_name_accepting)
  have mon: "monitor_import_task ?env ''import-ami-1'' =
      Some ([Print Stdout ''Monitoring import task status...'',
             Call (DescribeImportImageTasks [''import-ami-1'']),
             Print Stdout ''Current status: completed - No message''],
            Return completed_task_without_image)"
    by (simp add: monitor_first_answer completed_task_without_image_def)
  have status: "completed_task_without_image ''Status'' = Some ''completed''"
    by (simp add: completed_task_without_image_def)
  have image: "completed_task_without_image ''ImageId'' = None"
    by (simp add: completed_task_without_image_def)
  from completed_without_image_id_is_uncaught [of ?env "''vm.ova''", unfolded name,
      OF accepted_path accepted_clients accepted_bucket accepted_role accepted_upload
         accepted_import mon status image]
  show ?thesis
    unfolding accepting_backend_def by (simp add: accepted_events_def)
qed

subsection \<open>The missing input file\<close>

text \<open>
  Claim C3. When the input path does not exist, the run ends with exit status 1 and
  its events hold no client call (and no sleep): nothing was asked of the cloud.
\<close>

theorem missing_file_exits_before_any_call:
  assumes "\<not> os_path_exists env p"
  shows "main env p =
           Some ([Print Stdout ''Starting OVA to AMI conversion script...'',
                  Print Stderr (''Error: OVA file not found at '' @ [CHR 0x27] @ p @ [CHR 0x27])],
                 Exit 1)
         \<and> (\<exists>tr r. main env p = Some (tr, r) \<and> process_exit_code r = 1
               \<and> filter is_call tr = [] \<and> filter is_sleep tr = [])"
  using assms by (simp add: main_def)

text \<open>The sample backends know the file \<open>vm.ova\<close> only.\<close>

theorem missing_file_exits_before_any_call_witness:
  "\<not> os_path_exists (accepting_backend (\<lambda>i. answer completed_task)) ''missing.ova''
   \<and> main (accepting_backend (\<lambda>i. answer completed_task)) ''missing.ova'' =
       Some ([Print Stdout ''Starting OVA to AMI conversion script...'',
              Print Stderr (''Error: OVA file not found at 'missing.ova'' @ [CHR 0x27])],
             Exit 1)
   \<and> (\<exists>tr r. main (accepting_backend (\<lambda>i. answer completed_task)) ''missing.ova'' = Some (tr, r)
         \<and> process_exit_code r = 1 \<and> filter is_call tr = [] \<and> filter is_sleep tr = [])"
proof -
  have h: "\<not> os_path_exists (accepting_backend (\<lambda>i. answer completed_task)) ''missing.ova''"
    by (simp add: accepting_backend_def backend_def)
  from h missing_file_exits_before_any_call [OF h] show ?thesis
    by simp
qed

subsection \<open>The monitor\<close>

text \<open>
  Claim C4. Whatever the backend answers: when the first \<open>n\<close> status queries report a
  status other than \<open>completed\<close>, \<open>deleted\<close> and \<open>cancelled\<close>, and query \<open>n\<close> reports
  one of these three, the monitor returns the whole task record of that answer; it has
  made \<open>n + 1\<close> queries and slept \<open>n\<close> times, 30 each time, and nothing follows the
  last status line. There is no bound on \<open>n\<close>, and against a backend that never reports
  one of the three statuses the monitor does not return at all.
\<close>

theorem monitor_returns_at_first_terminal_status:
  "((\<forall>i<n. pending_at ec2 task_id i)
      \<and> read_task (describe_import_image_tasks ec2 n [task_id]) = Inr (t, status, msg)
      \<and> (status = ''completed'' \<or> status = ''deleted'' \<or> status = ''cancelled'')
     \<longrightarrow> monitor_import_task ec2 task_id =
           Some (Print Stdout ''Monitoring import task status...''
                   # pending_rounds ec2 task_id 0 n
                   @ [Call (DescribeImportImageTasks [task_id]),
                      Print Stdout (''Current status: '' @ status @ '' - '' @ msg)],
                 Return t)
         \<and> filter is_call (pending_rounds ec2 task_id 0 n) =
             replicate n (Call (DescribeImportImageTasks [task_id]))
         \<and> filter is_sleep (pending_rounds ec2 task_id 0 n) = replicate n (Sleep 30))
   \<and> ((\<forall>i. pending_at ec2 task_id i) \<longrightarrow> monitor_import_task ec2 task_id = None)"
proof (intro conjI impI)
  assume h: "(\<forall>i<n. pending_at ec2 task_id i)
      \<and> read_task (describe_import_image_tasks ec2 n [task_id]) = Inr (t, status, msg)
      \<and> (status = ''completed'' \<or> status = ''deleted'' \<or> status = ''cancelled'')"
  then have pend: "\<And>j. j < n \<Longrightarrow> pending_at ec2 task_id (0 + j)"
    by simp
  from h have "poll_events ec2 task_id n =
      [Call (DescribeImportImageTasks [task_id]),
       Print Stdout (''Current status: '' @ status @ '' - '' @ msg)]"
    by (simp add: poll_events_def status_line_def)
  moreover from h have "status \<in> set [''completed'', ''deleted'', ''cancelled'']"
    by auto
  ultimately show "monitor_import_task ec2 task_id =
           Some (Print Stdout ''Monitoring import task status...''
                   # pending_rounds ec2 task_id 0 n
                   @ [Call (DescribeImportImageTasks [task_id]),
                      Print Stdout (''Current status: '' @ status @ '' - '' @ msg)],
                 Return t)"
    using h unfolding monitor_import_task_def
    by (simp add: monitor_loop_pending [OF pend] monitor_loop_terminal [where status = status])
next
  show "filter is_call (pending_rounds ec2 task_id 0 n) =
             replicate n (Call (DescribeImportImageTasks [task_id]))"
    by (rule calls_pending_rounds)
next
  show "filter is_sleep (pending_rounds ec2 task_id 0 n) = replicate n (Sleep 30)"
    by (rule sleeps_pending_rounds)
next
  assume "\<forall>i. pending_at ec2 task_id i"
  then show "monitor_import_task ec2 task_id = None"
    unfolding monitor_import_task_def by (simp add: monitor_loop_diverges)
qed

text \<open>
  A backend that reports \<open>active\<close> twice and then \<open>completed\<close>, backends whose first
  answer is \<open>deleted\<close> or \<open>cancelled\<close>, and one that reports \<open>active\<close> forever.
\<close>

theorem monitor_returns_at_first_terminal_status_witness:
  "monitor_import_task
     (accepting_backend (\<lambda>i. answer (if i < 2 then active_task else completed_task)))
     ''import-ami-1'' =
     Some ([Print Stdout ''Monitoring import task status...'',
            Call (DescribeImportImageTasks [''import-ami-1'']),
            Print Stdout ''Current status: active - converting'',
            Sleep 30,
            Call (DescribeImportImageTasks [''import-ami-1'']),
            Print Stdout ''Current status: active - converting'',
            Sleep 30,
            Call (DescribeImportImageTasks [''import-ami-1'']),
            Print Stdout ''Current status: completed - No message''],
           Return completed_task)
   \<and> monitor_import_task (accepting_backend (\<lambda>i. answer deleted_task)) ''import-ami-1'' =
     Some ([Print Stdout ''Monitoring import task status...'',
            Call (DescribeImportImageTasks [''import-ami-1'']),
            Print Stdout ''Current status: deleted - No message''],
           Return deleted_task)
   \<and> monitor_import_task (accepting_backend (\<lambda>i. answer cancelled_task)) ''import-ami-1'' =
     Some ([Print Stdout ''Monitoring import task status...'',
            Call (DescribeImportImageTasks [''import-ami-1'']),
            Print Stdout ''Current status: cancelled - User cancelled''],
           Return cancelled_task)
   \<and> monitor_import_task (accepting_backend (\<lambda>i. answer active_task)) ''import-ami-1'' = None"
proof -
  let ?slow = "accepting_backend (\<lambda>i. answer (if i < 2 then active_task else completed_task))"
  let ?deleted = "accepting_backend (\<lambda>i. answer deleted_task)"
  let ?cancelled = "accepting_backend (\<lambda>i. answer cancelled_task)"
  let ?never = "accepting_backend (\<lambda>i. answer active_task)"
  note fact = monitor_returns_at_first_terminal_status
  have h1: "(\<forall>i<2. pending_at ?slow ''import-ami-1'' i)
      \<and> read_task (describe_import_image_tasks ?slow 2 [''import-ami-1''])
          = Inr (completed_task, ''completed'', ''No message'')"
    by (simp add: pending_at_def describe_accepting_backend read_task_answer
        active_task_def completed_task_def)
  have h2: "read_task (describe_import_image_tasks ?deleted 0 [''import-ami-1''])
          = Inr (deleted_task, ''deleted'', ''No message'')"
    by (simp add: describe_accepting_backend read_task_answer deleted_task_def)
  have h3: "read_task (describe_import_image_tasks ?cancelled 0 [''import-ami-1''])
          = Inr (cancelled_task, ''cancelled'', ''User cancelled'')"
    by (simp add: describe_accepting_backend read_task_answer cancelled_task_def)
  have h4: "\<forall>i. pending_at ?never ''import-ami-1'' i"
    by (simp add: pending_at_def describe_accepting_backend read_task_answer
        active_task_def)
  have rounds: "pending_rounds ?slow ''import-ami-1'' 0 2 =
      [Call (DescribeImportImageTasks [''import-ami-1'']),
       Print Stdout ''Current status: active - converting'', Sleep 30,
       Call (DescribeImportImageTasks [''import-ami-1'']),
       Print Stdout ''Current status: active - converting'', Sleep 30]"
    by (simp add: numeral_2_eq_2 poll_events_def status_line_def describe_accepting_backend
        read_task_answer active_task_def)
  from fact [of 2 ?slow "''import-ami-1''" completed_task "''completed''" "''No message''"]
    h1 rounds
  have a: "monitor_import_task ?slow ''import-ami-1'' =
     Some ([Print Stdout ''Monitoring import task status...'',
            Call (DescribeImportImageTasks [''import-ami-1'']),
            Print Stdout ''Current status: active - converting'',
            Sleep 30,
            Call (DescribeImportImageTasks [''import-ami-1'']),
            Print Stdout ''Current status: active - converting'',
            Sleep 30,
            Call (DescribeImportImageTasks [''import-ami-1'']),
            Print Stdout ''Current status: completed - No message''],
           Return completed_task)"
    by simp
  from fact [of 0 ?deleted "''import-ami-1''" deleted_task "''deleted''" "''No message''"] h2
  have b: "monitor_import_task ?deleted ''import-ami-1'' =
     Some ([Print Stdout ''Monitoring import task status...'',
            Call (DescribeImportImageTasks [''import-ami-1'']),
            Print Stdout ''Current status: deleted - No message''],
           Return deleted_task)"
    by simp
  from fact [of 0 ?cancelled "''import-ami-1''" cancelled_task "''cancelled''"
      "''User cancelled''"] h3
  have c: "monitor_import_task ?cancelled ''import-ami-1'' =
     Some ([Print Stdout ''Monitoring import task status...'',
            Call (DescribeImportImageTasks [''import-ami-1'']),
            Print Stdout ''Current status: cancelled - User cancelled''],
           Return cancelled_task)"
    by simp
  from fact [of 0 ?never "''import-ami-1''"] h4
  have d: "monitor_import_task ?never ''import-ami-1'' = None"
    by blast
  from a b c d show ?thesis by blast
qed

text \<open>
  Claim C5. When the status query raises, after any number of non-terminal answers, the
  monitor prints the diagnostic on the error stream and exits with status 1. The failing
  query is the last call of the run: it is not repeated and no sleep follows it.
\<close>

theorem monitor_query_error_is_fatal:
  assumes "\<forall>i<n. pending_at ec2 task_id i"
      and "describe_import_image_tasks ec2 n [task_id] = Raises e"
  shows "monitor_import_task ec2 task_id =
           Some (Print Stdout ''Monitoring import task status...''
                   # pending_rounds ec2 task_id 0 n
                   @ [Call (DescribeImportImageTasks [task_id]),
                      Print Stderr (''Error monitoring import task: '' @ str_exc e)],
                 Exit 1)"
proof -
  from assms(1) have pend: "\<And>j. j < n \<Longrightarrow> pending_at ec2 task_id (0 + j)"
    by simp
  from assms(2) have "read_task (describe_import_image_tasks ec2 n [task_id]) = Inl e"
    by (simp add: read_task_def)
  then show ?thesis
    unfolding monitor_import_task_def
    by (simp add: monitor_loop_pending [OF pend] monitor_loop_error)
qed

text \<open>A backend that reports \<open>active\<close> once and then throttles the query.\<close>

theorem monitor_query_error_is_fatal_witness:
  "monitor_import_task
     (accepting_backend (\<lambda>i. if i < 1 then answer active_task
                              else Raises (OtherException ''Throttling: Rate exceeded'')))
     ''import-ami-1'' =
     Some ([Print Stdout ''Monitoring import task status...'',
            Call (DescribeImportImageTasks [''import-ami-1'']),
            Print Stdout ''Current status: active - converting'',
            Sleep 30,
            Call (DescribeImportImageTasks [''import-ami-1'']),
            Print Stderr ''Error monitoring import task: Throttling: Rate exceeded''],
           Exit 1)"
proof -
  let ?ec2 = "accepting_backend (\<lambda>i. if i < 1 then answer active_task
                              else Raises (OtherException ''Throttling: Rate exceeded''))"
  have h1: "\<forall>i<1. pending_at ?ec2 ''import-ami-1'' i"
    by (simp add: pending_at_def describe_accepting_backend read_task_answer
        active_task_def)
  have h2: "describe_import_image_tasks ?ec2 1 [''import-ami-1'']
      = Raises (OtherException ''Throttling: Rate exceeded'')"
    by (simp add: describe_accepting_backend)
  have rounds: "pending_rounds ?ec2 ''import-ami-1'' 0 1 =
      [Call (DescribeImportImageTasks [''import-ami-1'']),
       Print Stdout ''Current status: active - converting'', Sleep 30]"
    by (simp add: poll_events_def status_line_def describe_accepting_backend
        read_task_answer active_task_def)
  from monitor_query_error_is_fatal [OF h1 h2] rounds show ?thesis
    by simp
qed

subsection \<open>The bucket provisioner\<close>



text \<open>
  Claim C9. The one client call of the bucket provisioner is \<open>create_bucket\<close>, without a
  location constraint in region \<open>us-east-1\<close> and with the region as location constraint
  in every other region.
\<close>

theorem bucket_request_location_constraint:
  "(region_name s3 = ''us-east-1'' \<longrightarrow>
      filter is_call (fst (create_s3_bucket s3 bucket_name)) =
        [Call (CreateBucket bucket_name None)])
   \<and> (region_name s3 \<noteq> ''us-east-1'' \<longrightarrow>
      filter is_call (fst (create_s3_bucket s3 bucket_name)) =
        [Call (CreateBucket bucket_name (Some (region_name s3)))])"
  by (auto simp: create_s3_bucket_def Let_def split: result.splits exc.splits)

text \<open>The sample region, and the same backend moved to \<open>eu-west-1\<close>.\<close>

theorem bucket_request_location_constraint_witness:
  "filter is_call (fst (create_s3_bucket (accepting_backend (\<lambda>i. answer completed_task))
       sample_bucket)) = [Call (CreateBucket sample_bucket None)]
   \<and> filter is_call (fst (create_s3_bucket
         ((accepting_backend (\<lambda>i. answer completed_task))\<lparr>region_name := ''eu-west-1''\<rparr>)
         sample_bucket)) = [Call (CreateBucket sample_bucket (Some ''eu-west-1''))]"
proof -
  let ?east = "accepting_backend (\<lambda>i. answer completed_task)"
  let ?west = "?east\<lparr>region_name := ''eu-west-1''\<rparr>"
  have east: "region_name ?east = ''us-east-1''"
    by (simp add: accepting_backend_def backend_def)
  have west: "region_name ?west = ''eu-west-1''" "region_name ?west \<noteq> ''us-east-1''"
    by simp_all
  from bucket_request_location_constraint [of ?east sample_bucket]
       bucket_request_location_constraint [of ?west sample_bucket] east west
  show ?thesis
    by simp
qed

subsection \<open>The access-role provisioner\<close>

text \<open>
  Claim C7. When \<open>get_role\<close> returns, whatever the role it describes, the provisioner
  returns after one line of output; \<open>get_role\<close> is its only client call, so no role is
  created and no policy is attached.
\<close>

theorem existing_role_is_left_alone:
  assumes "get_role iam IAM_ROLE_NAME = Returns r"
  shows "create_iam_role_and_policy iam s3_bucket =
           ([Print Stdout ''Checking for existing IAM role...'',
             Call (GetRole ''vmimport''),
             Print Stdout (''IAM role '' @ [CHR 0x27] @ ''vmimport'' @ [CHR 0x27]
                @ '' already exists. Skipping creation.'')], Return ())
         \<and> filter is_call (fst (create_iam_role_and_policy iam s3_bucket)) =
             [Call (GetRole ''vmimport'')]"
  using assms by (simp add: create_iam_role_and_policy_def IAM_ROLE_NAME_def)

text \<open>A backend whose \<open>get_role\<close> returns a role with an empty trust policy.\<close>

theorem existing_role_is_left_alone_witness:
  "create_iam_role_and_policy
     (backend (Returns ()) (Returns existing_role) (\<lambda>i. answer completed_task)) sample_bucket =
     ([Print Stdout ''Checking for existing IAM role...'',
       Call (GetRole ''vmimport''),
       Print Stdout ''IAM role 'vmimport' already exists. Skipping creation.''], Return ())
   \<and> filter is_call (fst (create_iam_role_and_policy
         (backend (Returns ()) (Returns existing_role) (\<lambda>i. answer completed_task)) sample_bucket))
       = [Call (GetRole ''vmimport'')]"
proof -
  have h: "get_role (backend (Returns ()) (Returns existing_role) (\<lambda>i. answer completed_task))
      IAM_ROLE_NAME = Returns existing_role"
    by (simp add: backend_def)
  from existing_role_is_left_alone [OF h, of sample_bucket] show ?thesis
    by simp
qed

text \<open>
  Claim C8. In the permission policy for bucket \<open>b\<close>, each of the three storage-read
  actions is allowed on exactly \<open>arn:aws:s3:::b\<close> and \<open>arn:aws:s3:::b/*\<close>, and not on
  \<open>*\<close>, also where an action pattern with a wildcard would cover it. When the role is
  absent and its creation succeeds, the provisioner attaches one policy, to role
  \<open>vmimport\<close> under the name \<open>vmimport\<close>: its document is the text \<open>policy_document q\<close>,
  this text reads back as that policy, and \<open>q\<close> is the bucket name as a JSON string
  writes it in printable ASCII, which is the name itself when it needs no escape.
\<close>

theorem storage_read_scoped_to_bucket:
  "((a = ''s3:GetBucketLocation'' \<or> a = ''s3:GetObject'' \<or> a = ''s3:ListBucket'') \<longrightarrow>
      allowed_resources a (role_policy b) = [''arn:aws:s3:::'' @ b, ''arn:aws:s3:::'' @ b @ ''/*'']
      \<and> ''*'' \<notin> set (allowed_resources a (role_policy b)))
   \<and> (get_role iam ''vmimport'' = Raises (NoSuchEntityException m)
        \<and> create_role iam ''vmimport'' (json_dumps trust_policy) = Returns ()
      \<longrightarrow> (\<exists>q. put_role_policy_calls (fst (create_iam_role_and_policy iam b)) =
               [(''vmimport'', ''vmimport'', policy_document q)]
             \<and> json_loads (policy_document q) = Some (role_policy b)
             \<and> read_string (q @ [CHR 0x22]) = Some (b, [])
             \<and> list_all ascii_char q
             \<and> (list_all plain_char b \<longrightarrow> q = b)))"
proof (intro conjI impI)
  assume a: "a = ''s3:GetBucketLocation'' \<or> a = ''s3:GetObject'' \<or> a = ''s3:ListBucket''"
  show "allowed_resources a (role_policy b) =
      [''arn:aws:s3:::'' @ b, ''arn:aws:s3:::'' @ b @ ''/*'']"
    by (rule allowed_resources_role_policy [OF a])
  then show "''*'' \<notin> set (allowed_resources a (role_policy b))"
    by simp
next
  assume h: "get_role iam ''vmimport'' = Raises (NoSuchEntityException m)
        \<and> create_role iam ''vmimport'' (json_dumps trust_policy) = Returns ()"
  let ?q = "concat (map escape_char b)"
  from h have "put_role_policy_calls (fst (create_iam_role_and_policy iam b)) =
      [(''vmimport'', ''vmimport'', json_dumps (role_policy b))]"
    by (simp add: create_iam_role_and_policy_def IAM_ROLE_NAME_def IAM_POLICY_NAME_def Let_def
        split: result.splits)
  then have calls: "put_role_policy_calls (fst (create_iam_role_and_policy iam b)) =
      [(''vmimport'', ''vmimport'', policy_document ?q)]"
    by (simp only: json_dumps_role_policy)
  have loads: "json_loads (policy_document ?q) = Some (role_policy b)"
    by (rule json_loads_role_policy)
  have decode: "read_string (?q @ [CHR 0x22]) = Some (b, [])"
    using read_string_escaped [of b "[CHR 0x22]"] by simp
  have plain: "list_all plain_char b \<longrightarrow> ?q = b"
    by (simp add: escape_plain)
  have ascii: "list_all ascii_char ?q"
    by (rule escaped_ascii)
  from calls loads decode ascii plain
  show "\<exists>q. put_role_policy_calls (fst (create_iam_role_and_policy iam b)) =
               [(''vmimport'', ''vmimport'', policy_document q)]
             \<and> json_loads (policy_document q) = Some (role_policy b)
             \<and> read_string (q @ [CHR 0x22]) = Some (b, [])
             \<and> list_all ascii_char q
             \<and> (list_all plain_char b \<longrightarrow> q = b)"
    by blast
qed

lemma sample_bucket_plain: "list_all plain_char sample_bucket"
  by (simp add: sample_bucket_def plain_char_def)

text \<open>
  The three actions and the accepting backend, where the role is absent; the bucket name
  of the sample needs no escape, so the attached text is known to the last character.
\<close>

theorem storage_read_scoped_to_bucket_witness:
  "allowed_resources ''s3:GetBucketLocation'' (role_policy sample_bucket) =
       [''arn:aws:s3:::ova-ami-import-1700000000-3f2a9c1e'',
        ''arn:aws:s3:::ova-ami-import-1700000000-3f2a9c1e/*'']
   \<and> allowed_resources ''s3:GetObject'' (role_policy sample_bucket) =
       [''arn:aws:s3:::ova-ami-import-1700000000-3f2a9c1e'',
        ''arn:aws:s3:::ova-ami-import-1700000000-3f2a9c1e/*'']
   \<and> allowed_resources ''s3:ListBucket'' (role_policy sample_bucket) =
       [''arn:aws:s3:::ova-ami-import-1700000000-3f2a9c1e'',
        ''arn:aws:s3:::ova-ami-import-1700000000-3f2a9c1e/*'']
   \<and> put_role_policy_calls
         (fst (create_iam_role_and_policy (accepting_backend (\<lambda>i. answer completed_task))
                 sample_bucket)) =
       [(''vmimport'', ''vmimport'',
         ''{'' @ in_quotes ''Version'' @ '': '' @ in_quotes ''2012-10-17'' @ '', ''
         @ in_quotes ''Statement'' @ '': [{''
         @ in_quotes ''Effect'' @ '': '' @ in_quotes ''Allow'' @ '', ''
         @ in_quotes ''Action'' @ '': ['' @ in_quotes ''s3:GetBucketLocation'' @ '', ''
         @ in_quotes ''s3:GetObject'' @ '', '' @ in_quotes ''s3:ListBucket'' @ ''], ''
         @ in_quotes ''Resource'' @ '': [''
         @ in_quotes ''arn:aws:s3:::ova-ami-import-1700000000-3f2a9c1e'' @ '', ''
         @ in_quotes ''arn:aws:s3:::ova-ami-import-1700000000-3f2a9c1e/*'' @ '']}, {''
         @ in_quotes ''Effect'' @ '': '' @ in_quotes ''Allow'' @ '', ''
         @ in_quotes ''Action'' @ '': ['' @ in_quotes ''ec2:ModifySnapshotAttribute'' @ '', ''
         @ in_quotes ''ec2:CopySnapshot'' @ '', '' @ in_quotes ''ec2:RegisterImage'' @ '', ''
         @ in_quotes ''ec2:Describe*'' @ ''], ''
         @ in_quotes ''Resource'' @ '': '' @ in_quotes ''*'' @ ''}]}'')]
   \<and> json_loads (policy_document sample_bucket) = Some (role_policy sample_bucket)"
proof -
  let ?iam = "accepting_backend (\<lambda>i. answer completed_task)"
  let ?m = "''The role with name vmimport cannot be found.''"
  note fact = storage_read_scoped_to_bucket
  have absent: "get_role ?iam ''vmimport'' = Raises (NoSuchEntityException ?m)
      \<and> create_role ?iam ''vmimport'' (json_dumps trust_policy) = Returns ()"
    by (simp add: accepting_backend_def backend_def no_such_role_def)
  from fact [of "''s3:GetBucketLocation''" sample_bucket]
  have r1: "allowed_resources ''s3:GetBucketLocation'' (role_policy sample_bucket) =
       [''arn:aws:s3:::ova-ami-import-1700000000-3f2a9c1e'',
        ''arn:aws:s3:::ova-ami-import-1700000000-3f2a9c1e/*'']"
    by (simp add: sample_bucket_def)
  from fact [of "''s3:GetObject''" sample_bucket]
  have r2: "allowed_resources ''s3:GetObject'' (role_policy sample_bucket) =
       [''arn:aws:s3:::ova-ami-import-1700000000-3f2a9c1e'',
        ''arn:aws:s3:::ova-ami-import-1700000000-3f2a9c1e/*'']"
    by (simp add: sample_bucket_def)
  from fact [of "''s3:ListBucket''" sample_bucket]
  have r3: "allowed_resources ''s3:ListBucket'' (role_policy sample_bucket) =
       [''arn:aws:s3:::ova-ami-import-1700000000-3f2a9c1e'',
        ''arn:aws:s3:::ova-ami-import-1700000000-3f2a9c1e/*'']"
    by (simp add: sample_bucket_def)
  from fact [of _ sample_bucket ?iam ?m] absent sample_bucket_plain
  obtain q where
    calls: "put_role_policy_calls (fst (create_iam_role_and_policy ?iam sample_bucket)) =
       [(''vmimport'', ''vmimport'', policy_document q)]"
    and loads: "json_loads (policy_document q) = Some (role_policy sample_bucket)"
    and q: "q = sample_bucket"
    by blast
  from calls [unfolded q] have r4: "put_role_policy_calls
         (fst (create_iam_role_and_policy ?iam sample_bucket)) =
       [(''vmimport'', ''vmimport'',
         ''{'' @ in_quotes ''Version'' @ '': '' @ in_quotes ''2012-10-17'' @ '', ''
         @ in_quotes ''Statement'' @ '': [{''
         @ in_quotes ''Effect'' @ '': '' @ in_quotes ''Allow'' @ '', ''
         @ in_quotes ''Action'' @ '': ['' @ in_quotes ''s3:GetBucketLocation'' @ '', ''
         @ in_quotes ''s3:GetObject'' @ '', '' @ in_quotes ''s3:ListBucket'' @ ''], ''
         @ in_quotes ''Resource'' @ '': [''
         @ in_quotes ''arn:aws:s3:::ova-ami-import-1700000000-3f2a9c1e'' @ '', ''
         @ in_quotes ''arn:aws:s3:::ova-ami-import-1700000000-3f2a9c1e/*'' @ '']}, {''
         @ in_quotes ''Effect'' @ '': '' @ in_quotes ''Allow'' @ '', ''
         @ in_quotes ''Action'' @ '': ['' @ in_quotes ''ec2:ModifySnapshotAttribute'' @ '', ''
         @ in_quotes ''ec2:CopySnapshot'' @ '', '' @ in_quotes ''ec2:RegisterImage'' @ '', ''
         @ in_quotes ''ec2:Describe*'' @ ''], ''
         @ in_quotes ''Resource'' @ '': '' @ in_quotes ''*'' @ ''}]}'')]"
    by (simp add: sample_bucket_def policy_document_def)
  from loads [unfolded q] r1 r2 r3 r4 show ?thesis
    by blast
qed

end
